theory Spec2Isabelle
  imports Main
begin

section \<open>JavaScript values shared by both modules\<close>

text \<open>
  Errors are values.  \<open>TypeError\<close> is what the runtime throws when a property is read from
  \<open>undefined\<close> or when \<open>undefined\<close> is called; \<open>Error msg\<close> is
  \<open>new Error(msg)\<close> thrown by the library; \<open>ApiError\<close> is an error object handed
  back by the transport as the first callback argument.
\<close>

datatype js_error = TypeError | Error string | ApiError string

text \<open>A string-or-undefined used as a condition: \<open>undefined\<close> and \<open>''\<close> are falsy.\<close>

definition truthy :: "string option \<Rightarrow> bool" where
  "truthy s = (case s of None \<Rightarrow> False | Some t \<Rightarrow> t \<noteq> [])"

section \<open>lib/compute/firewall.js\<close>

text \<open>
  The API response is an object; only its \<open>name\<close> property is read by the wrapper, the
  remaining properties are carried along as they are.  A missing property reads as
  \<open>undefined\<close> (\<open>None\<close>).
\<close>

record api_response =
  resp_name :: "string option"
  resp_fields :: "(string \<times> string) list"

record operation =
  op_name :: "string option"
  op_metadata :: "api_response option"

text \<open>
  Modelled from the spec: \<open>compute.operation(name)\<close> lives in lib/compute/index.js, which is
  not among the sources.  The spec's data model has an Operation as a handle with a name and a
  metadata blob, "created from a response's name field"; a fresh handle has no metadata yet.
\<close>

definition compute_operation :: "string option \<Rightarrow> operation" where
  "compute_operation n = \<lparr>op_name = n, op_metadata = None\<rparr>"

text \<open>
  \<open>this.name\<close> and \<open>this.metadata.network\<close> of a Firewall object.  The constructor
  sets the network to the default one.
\<close>

record firewall =
  fw_name :: string
  fw_network :: string

definition Firewall :: "string \<Rightarrow> firewall" where
  "Firewall name = \<lparr>fw_name = name, fw_network = ''global/networks/default''\<rparr>"

text \<open>The request handed to \<open>this.request\<close> by \<open>setMetadata\<close>.\<close>

record fw_request =
  rq_method :: string
  rq_uri :: string
  rq_json :: "string \<rightharpoonup> string"

type_synonym fw_reply = "js_error option \<times> api_response option"
type_synonym fw_cb_args = "js_error option \<times> operation option \<times> api_response option"

text \<open>
  \<open>Firewall.prototype.delete\<close>.  The base class's delete and the transport are not part of
  this file: \<open>reply\<close> is the pair \<open>(err, resp)\<close> that the base class hands to the
  continuation.  The result is the argument triple passed to \<open>callback\<close> (the caller's
  function, or \<open>util.noop\<close> when none was given); \<open>Inl\<close> is an exception thrown inside
  the continuation (\<open>resp.name\<close> read from an undefined \<open>resp\<close>).
\<close>

definition Firewall_delete :: "firewall \<Rightarrow> fw_reply \<Rightarrow> js_error + fw_cb_args" where
  "Firewall_delete this reply =
     (case reply of (err, resp) \<Rightarrow>
        (case err of
           Some e \<Rightarrow> Inr (Some e, None, resp)
         | None \<Rightarrow>
             (case resp of
                None \<Rightarrow> Inl TypeError
              | Some r \<Rightarrow>
                  (let operation = compute_operation (resp_name r);
                       operation = operation\<lparr>op_metadata := Some r\<rparr>
                   in Inr (None, Some operation, Some r)))))"

text \<open>
  \<open>Firewall.prototype.setMetadata\<close>: the first component is the request issued, the second
  what the continuation does with the transport's reply.
\<close>

definition Firewall_setMetadata ::
  "firewall \<Rightarrow> (string \<rightharpoonup> string) option \<Rightarrow> fw_reply \<Rightarrow> fw_request \<times> (js_error + fw_cb_args)" where
  "Firewall_setMetadata this metadata reply =
     (let metadata = (case metadata of None \<Rightarrow> Map.empty | Some m \<Rightarrow> m);
          metadata = metadata(''name'' \<mapsto> fw_name this);
          metadata = metadata(''network'' \<mapsto> fw_network this)
      in (\<lparr>rq_method = ''PATCH'', rq_uri = '''', rq_json = metadata\<rparr>,
          (case reply of (err, resp) \<Rightarrow>
             (case err of
                Some e \<Rightarrow> Inr (Some e, None, resp)
              | None \<Rightarrow>
                  (case resp of
                     None \<Rightarrow> Inl TypeError
                   | Some r \<Rightarrow>
                       (let operation = compute_operation (resp_name r);
                            operation = operation\<lparr>op_metadata := Some r\<rparr>
                        in Inr (None, Some operation, Some r)))))))"

section \<open>lib/datastore/request.js: the data\<close>

text \<open>
  Modelled from the spec: the Key class lives in lib/datastore/entity.js, which is not among the
  sources.  The spec's data model gives a Key an optional namespace and an ordered path of
  segments; the final segment carries a kind and, when the key is complete, an id or a name.
  \<open>request.js\<close> itself reads and writes the \<open>id\<close> property of a Key.
\<close>

record key =
  k_namespace :: "string option"
  k_parents :: "string list"
  k_kind :: string
  k_id :: "int option"
  k_name :: "string option"

text \<open>
  Modelled from the spec: \<open>entity.isKeyComplete\<close> is not among the sources; the spec's
  invariant is "a Key is complete iff its final path segment carries an id or name".
\<close>

definition isKeyComplete :: "key \<Rightarrow> bool" where
  "isKeyComplete k = (k_id k \<noteq> None \<or> k_name k \<noteq> None)"

text \<open>
  Key objects are shared between the caller and the library and are written to in place, so
  entities hold the address of their Key object in a store.
\<close>

type_synonym key_ref = nat
type_synonym key_store = "key_ref \<Rightarrow> key"

text \<open>
  A wire value as \<open>save\<close> looks at it: the optional \<open>arrayValue\<close> with its optional
  \<open>values\<close>, the optional \<open>excludeFromIndexes\<close> flag, and the rest (\<open>'pl\<close>).
\<close>

datatype 'pl value_proto =
  ValueProto (payload: 'pl) (arrayValue: "'pl value_proto list option option")
             (excludeFromIndexes: "bool option")

record ('kp, 'pl) entity_proto =
  properties :: "string \<rightharpoonup> 'pl value_proto"
  ep_key :: "'kp option"

text \<open>One mutation object, as the list of its own properties.\<close>

datatype ('kp, 'pl) mutation_arg = KeyArg 'kp | EntityArg "('kp, 'pl) entity_proto"

type_synonym ('kp, 'pl) mutation = "(string \<times> ('kp, 'pl) mutation_arg) list"

text \<open>
  The query proto as \<open>runQuery\<close> looks at it: \<open>limit\<close> is the optional wrapper object
  whose \<open>value\<close> is the number.
\<close>

record 'qp query_proto =
  qp_limit :: "int option"
  qp_rest :: 'qp

record read_options =
  ro_transaction :: "string option"

record proto_opts =
  po_service :: string
  po_method :: string

text \<open>The request body object \<open>reqOpts\<close>; an absent property is \<open>None\<close>.\<close>

record ('kp, 'pl, 'qp) req_opts =
  req_keys :: "'kp list option"
  req_mutations :: "('kp, 'pl) mutation list option"
  req_readOptions :: "read_options option"
  req_query :: "'qp query_proto option"
  req_partitionId :: "string option"
  req_projectId :: "string option"
  req_mode :: "string option"
  req_transaction :: "string option"

definition empty_req :: "('kp, 'pl, 'qp) req_opts" where
  "empty_req = \<lparr>req_keys = None, req_mutations = None, req_readOptions = None, req_query = None,
                 req_partitionId = None, req_projectId = None, req_mode = None, req_transaction = None\<rparr>"

text \<open>
  Functions are identified by a tag; \<open>Noop\<close> is \<open>util.noop\<close>.  Calling
  \<open>undefined\<close> throws.
\<close>

datatype fn = Fn nat | Noop

definition call :: "fn option \<Rightarrow> 'a \<Rightarrow> js_error + (fn \<times> 'a)" where
  "call callback args = (case callback of None \<Rightarrow> Inl TypeError | Some f \<Rightarrow> Inr (f, args))"

text \<open>
  One entry of the explicit property list, and an entity object handed to \<open>save\<close>.
  \<open>p_excludeFromIndexes\<close> is \<open>Some b\<close> exactly when the property is a boolean.
\<close>

record 'v property =
  p_name :: string
  p_value :: 'v
  p_excludeFromIndexes :: "bool option"

datatype 'v entity_data = DataArray "'v property list" | DataObject 'v

record 'v entity_object =
  e_key :: key_ref
  e_method :: "string option"
  e_data :: "'v entity_data"

text \<open>
  The closure \<open>onCommit\<close> created by \<open>save\<close>: the variables it captures.
\<close>

record 'v on_commit =
  oc_insertIndexes :: "nat list"
  oc_entities :: "'v entity_object list"
  oc_callback :: "fn option"

text \<open>
  The object the mixin is composed into (\<open>this\<close>): a Datastore or a Transaction.
  \<open>sent\<close> records the calls made to \<open>this.request\<close>, the adapter supplied by the
  hosting object.
\<close>

record ('kp, 'pl, 'qp, 'v) datastore_request =
  this_id :: "string option"
  this_projectId :: "string option"
  requests_priv :: "('kp, 'pl, 'qp) req_opts list"
  requestCallbacks_priv :: "'v on_commit list"
  sent :: "(proto_opts \<times> ('kp, 'pl, 'qp) req_opts) list"

section \<open>lib/datastore/request.js: request_priv, allocateIds, delete\<close>

text \<open>
  \<open>DatastoreRequest.prototype.request_\<close> (a name cannot end in an underscore here, so
  the private members \<open>request_\<close>, \<open>requests_\<close> and \<open>requestCallbacks_\<close>
  carry the suffix \<open>priv\<close>), as every caller in this file uses it (three
  arguments, the continuation given): it completes \<open>reqOpts\<close> and hands it to
  \<open>this.request\<close>.  \<open>is.defined(this.id)\<close> holds for every id other than
  \<open>undefined\<close>.
\<close>

definition request_priv ::
  "('kp, 'pl, 'qp, 'v) datastore_request \<Rightarrow> proto_opts \<Rightarrow> ('kp, 'pl, 'qp) req_opts
     \<Rightarrow> ('kp, 'pl, 'qp, 'v) datastore_request" where
  "request_priv this protoOpts reqOpts =
     (let isTransaction = (this_id this \<noteq> None);
          method = po_method protoOpts;
          reqOpts = reqOpts\<lparr>req_projectId := this_projectId this\<rparr>;
          reqOpts = (if method = ''commit'' then
                       (if isTransaction
                        then reqOpts\<lparr>req_mode := Some ''TRANSACTIONAL'', req_transaction := this_id this\<rparr>
                        else reqOpts\<lparr>req_mode := Some ''NON_TRANSACTIONAL''\<rparr>)
                     else reqOpts);
          reqOpts = (if method = ''rollback'' then reqOpts\<lparr>req_transaction := this_id this\<rparr>
                     else reqOpts);
          reqOpts = (if isTransaction \<and> (method = ''lookup'' \<or> method = ''runQuery'') then
                       (let ro = (case req_readOptions reqOpts of
                                    None \<Rightarrow> \<lparr>ro_transaction = None\<rparr> | Some ro \<Rightarrow> ro)
                        in reqOpts\<lparr>req_readOptions := Some (ro\<lparr>ro_transaction := this_id this\<rparr>)\<rparr>)
                     else reqOpts)
      in this\<lparr>sent := sent this @ [(protoOpts, reqOpts)]\<rparr>)"

text \<open>The response to an \<open>allocateIds\<close> request.\<close>

record 'kp allocate_response =
  ar_keys :: "'kp list option"

type_synonym 'kp allocate_reply = "js_error option \<times> 'kp allocate_response option"

text \<open>
  \<open>DatastoreRequest.prototype.allocateIds\<close>.  \<open>keyToKeyProto\<close> and
  \<open>keyFromKeyProto\<close> are the functions of lib/datastore/entity.js, not among the sources
  and taken as parameters.  \<open>reply\<close> is what the transport hands to the continuation.
  \<open>Inl\<close> at the outer level is an exception thrown by the call itself, before anything
  is sent; otherwise the result is the context after dispatch and what the continuation did:
  an exception of its own, or the call of \<open>callback\<close> with its arguments.
\<close>

definition allocateIds ::
  "(key \<Rightarrow> 'kp) \<Rightarrow> ('kp \<Rightarrow> key) \<Rightarrow> ('kp, 'pl, 'qp, 'v) datastore_request \<Rightarrow> key \<Rightarrow> int \<Rightarrow> fn option
     \<Rightarrow> 'kp allocate_reply
     \<Rightarrow> js_error + (('kp, 'pl, 'qp, 'v) datastore_request
          \<times> (js_error + (fn \<times> js_error option \<times> key list option \<times> 'kp allocate_response option)))"
  where
  "allocateIds keyToKeyProto keyFromKeyProto this incompleteKey n callback reply =
     (if isKeyComplete incompleteKey then Inl (Error ''An incomplete key should be provided.'')
      else
        (let incompleteKeys = replicate (nat n) (keyToKeyProto incompleteKey);
             protoOpts = \<lparr>po_service = ''Datastore'', po_method = ''allocateIds''\<rparr>;
             reqOpts = empty_req\<lparr>req_keys := Some incompleteKeys\<rparr>;
             this = request_priv this protoOpts reqOpts
         in Inr (this,
              (case reply of (err, resp) \<Rightarrow>
                 (case err of
                    Some e \<Rightarrow> call callback (Some e, None, resp)
                  | None \<Rightarrow>
                      (case resp of
                         None \<Rightarrow> Inl TypeError
                       | Some r \<Rightarrow>
                           (let keys = map keyFromKeyProto
                                         (case ar_keys r of None \<Rightarrow> [] | Some ks \<Rightarrow> ks)
                            in call callback (None, Some keys, Some r))))))))"

text \<open>
  \<open>DatastoreRequest.prototype.delete\<close>.  \<open>arrify(keys)\<close> is the list \<open>keys\<close>.
  The second component of the result is the call of \<open>callback\<close> made once the transport
  has replied, if any is made.
\<close>

definition delete ::
  "(key \<Rightarrow> 'kp) \<Rightarrow> ('kp, 'pl, 'qp, 'v) datastore_request \<Rightarrow> key list \<Rightarrow> fn option \<Rightarrow> 'r
     \<Rightarrow> ('kp, 'pl, 'qp, 'v) datastore_request \<times> (fn \<times> 'r) option" where
  "delete keyToKeyProto this keys callback reply =
     (let callback = (case callback of None \<Rightarrow> Noop | Some f \<Rightarrow> f);
          protoOpts = \<lparr>po_service = ''Datastore'', po_method = ''commit''\<rparr>;
          reqOpts = empty_req\<lparr>req_mutations :=
                      Some (map (\<lambda>key. [(''delete'', KeyArg (keyToKeyProto key))]) keys)\<rparr>
      in if truthy (this_id this)
         then (this\<lparr>requests_priv := requests_priv this @ [reqOpts]\<rparr>, None)
         else (request_priv this protoOpts reqOpts, Some (callback, reply)))"

section \<open>lib/datastore/request.js: save\<close>

text \<open>
  \<open>methods[entityObject.method]\<close> used as a condition.  \<open>methods\<close> is the object
  literal \<open>{insert: true, update: true, upsert: true}\<close>; a property read on it that
  finds no own property continues in \<open>Object.prototype\<close>, whose members (functions, and
  the prototype object itself under \<open>__proto__\<close>) are all truthy.
\<close>

definition Object_prototype_names :: "string list" where
  "Object_prototype_names =
     [''constructor'', ''toString'', ''toLocaleString'', ''valueOf'', ''hasOwnProperty'',
      ''isPrototypeOf'', ''propertyIsEnumerable'', ''__proto__'', ''__defineGetter__'',
      ''__defineSetter__'', ''__lookupGetter__'', ''__lookupSetter__'']"

definition methods_lookup :: "string \<Rightarrow> bool" where
  "methods_lookup m =
     (m \<in> set [''insert'', ''update'', ''upsert''] \<or> m \<in> set Object_prototype_names)"

text \<open>
  \<open>propAssign('excludeFromIndexes', excluded)\<close> of the prop-assign package: the function
  that assigns the property on its argument and returns the argument.
\<close>

definition propAssign_excludeFromIndexes :: "bool \<Rightarrow> 'pl value_proto \<Rightarrow> 'pl value_proto" where
  "propAssign_excludeFromIndexes excluded obj =
     ValueProto (payload obj) (arrayValue obj) (Some excluded)"

text \<open>
  The function given to \<open>reduce\<close> over the explicit property list.  \<open>encodeValue\<close>
  is the function of lib/datastore/entity.js, taken as a parameter.  Mapping the assigning
  function over \<open>values\<close> updates the elements of the encoded array themselves; the
  array that \<open>map\<close> returns is not used again.
\<close>

definition reduce_step ::
  "('v \<Rightarrow> 'pl value_proto) \<Rightarrow> (string \<rightharpoonup> 'pl value_proto) \<Rightarrow> 'v property
     \<Rightarrow> (string \<rightharpoonup> 'pl value_proto)" where
  "reduce_step encodeValue acc data =
     (let value = encodeValue (p_value data);
          value =
            (case p_excludeFromIndexes data of
               None \<Rightarrow> value
             | Some excluded \<Rightarrow>
                 (let values = (case arrayValue value of None \<Rightarrow> None | Some av \<Rightarrow> av)
                  in case values of
                       Some vs \<Rightarrow>
                         ValueProto (payload value)
                           (Some (Some (map (propAssign_excludeFromIndexes excluded) vs)))
                           (excludeFromIndexes value)
                     | None \<Rightarrow> ValueProto (payload value) (arrayValue value) (Some excluded)))
      in acc(p_name data \<mapsto> value))"

text \<open>
  The body of the \<open>forEach\<close> over the entities: the mutation built for one entity and
  whether its index is entered into \<open>insertIndexes\<close>, or the exception thrown.
  Assigning to \<open>mutation['__proto__']\<close> sets the prototype and creates no own property.
\<close>

definition forEach_body ::
  "(key \<Rightarrow> 'kp) \<Rightarrow> ('v \<Rightarrow> 'pl value_proto) \<Rightarrow> ('v \<Rightarrow> ('kp, 'pl) entity_proto) \<Rightarrow> key_store
     \<Rightarrow> 'v entity_object \<Rightarrow> js_error + (bool \<times> ('kp, 'pl) mutation)" where
  "forEach_body keyToKeyProto encodeValue entityToEntityProto store entityObject =
     (case (case e_method entityObject of
              None \<Rightarrow> Inr ''upsert''
            | Some m \<Rightarrow>
                (if truthy (Some m) then
                   (if methods_lookup m then Inr m
                    else Inl (Error (''Method '' @ m @ '' not recognized.'')))
                 else Inr ''upsert'')) of
        Inl err \<Rightarrow> Inl err
      | Inr method \<Rightarrow>
          (let pending = \<not> isKeyComplete (store (e_key entityObject));
               entityProto =
                 (case e_data entityObject of
                    DataArray props \<Rightarrow>
                      \<lparr>properties = foldl (reduce_step encodeValue) Map.empty props,
                       ep_key = None\<rparr>
                  | DataObject obj \<Rightarrow> entityToEntityProto obj);
               entityProto = entityProto\<lparr>ep_key := Some (keyToKeyProto (store (e_key entityObject)))\<rparr>;
               mutation = (if method = ''__proto__'' then [] else [(method, EntityArg entityProto)])
           in Inr (pending, mutation)))"

text \<open>
  The \<open>forEach\<close> itself, from index \<open>index\<close> on: it stops at the first exception,
  otherwise extends \<open>insertIndexes\<close> and \<open>mutations\<close>.
\<close>

fun forEach_entities ::
  "('v entity_object \<Rightarrow> js_error + (bool \<times> 'm)) \<Rightarrow> nat \<Rightarrow> 'v entity_object list
     \<Rightarrow> nat list \<times> 'm list \<Rightarrow> js_error + (nat list \<times> 'm list)" where
  "forEach_entities body index [] acc = Inr acc"
| "forEach_entities body index (entityObject # rest) acc =
     (case body entityObject of
        Inl err \<Rightarrow> Inl err
      | Inr (pending, mutation) \<Rightarrow>
          forEach_entities body (Suc index) rest
            ((if pending then fst acc @ [index] else fst acc), snd acc @ [mutation]))"

text \<open>The commit response: \<open>arrify(resp.mutationResults)\<close> of an absent list is empty.\<close>

record 'kp mutation_result =
  mr_key :: "'kp option"

record 'kp commit_response =
  mutationResults :: "'kp mutation_result list option"

type_synonym 'kp commit_reply = "js_error option \<times> 'kp commit_response option"

text \<open>
  The \<open>forEach\<close> over the mutation results in \<open>onCommit\<close>, from index \<open>index\<close>
  on: the id of the decoded key is written into the Key object of the entity at that index.
\<close>

fun forEach_results ::
  "('kp \<Rightarrow> key) \<Rightarrow> nat list \<Rightarrow> 'v entity_object list \<Rightarrow> nat \<Rightarrow> 'kp mutation_result list
     \<Rightarrow> key_store \<Rightarrow> js_error + key_store" where
  "forEach_results keyFromKeyProto insertIndexes entities index [] store = Inr store"
| "forEach_results keyFromKeyProto insertIndexes entities index (result # rest) store =
     (case mr_key result of
        None \<Rightarrow> forEach_results keyFromKeyProto insertIndexes entities (Suc index) rest store
      | Some kp \<Rightarrow>
          (if index \<in> set insertIndexes then
             (if index < length entities then
                (let newId = k_id (keyFromKeyProto kp);
                     keyObject = e_key (entities ! index)
                 in forEach_results keyFromKeyProto insertIndexes entities (Suc index) rest
                      (store(keyObject := (store keyObject)\<lparr>k_id := newId\<rparr>)))
              else Inl TypeError)
           else forEach_results keyFromKeyProto insertIndexes entities (Suc index) rest store))"

text \<open>
  \<open>onCommit\<close>, applied to what the transport (or the transaction's commit) hands it:
  the store afterwards and the call of \<open>callback\<close>, or the exception thrown.
\<close>

definition onCommit ::
  "('kp \<Rightarrow> key) \<Rightarrow> 'v on_commit \<Rightarrow> key_store \<Rightarrow> 'kp commit_reply
     \<Rightarrow> js_error + (key_store \<times> fn \<times> js_error option \<times> 'kp commit_response option)" where
  "onCommit keyFromKeyProto closure store reply =
     (case reply of
        (Some e, resp) \<Rightarrow>
          (case call (oc_callback closure) (Some e, resp) of
             Inl e \<Rightarrow> Inl e | Inr (f, args) \<Rightarrow> Inr (store, f, args))
      | (None, None) \<Rightarrow>
          (case call (oc_callback closure) (None, None) of
             Inl e \<Rightarrow> Inl e | Inr (f, args) \<Rightarrow> Inr (store, f, args))
      | (None, Some resp) \<Rightarrow>
          (case forEach_results keyFromKeyProto (oc_insertIndexes closure) (oc_entities closure) 0
                  (case mutationResults resp of None \<Rightarrow> [] | Some rs \<Rightarrow> rs) store of
             Inl e \<Rightarrow> Inl e
           | Inr store' \<Rightarrow>
               (case call (oc_callback closure) (None, Some resp) of
                  Inl e \<Rightarrow> Inl e | Inr (f, args) \<Rightarrow> Inr (store', f, args))))"

text \<open>
  \<open>DatastoreRequest.prototype.save\<close>.  \<open>arrify(entities)\<close> is the list
  \<open>entities\<close>.  \<open>Inl\<close> at the outer level is an exception thrown by the call itself,
  which leaves the object as it was.  Otherwise the result is the object afterwards and, when
  the request was sent, what \<open>onCommit\<close> does with the transport's reply.
\<close>

definition save ::
  "(key \<Rightarrow> 'kp) \<Rightarrow> ('kp \<Rightarrow> key) \<Rightarrow> ('v \<Rightarrow> 'pl value_proto) \<Rightarrow> ('v \<Rightarrow> ('kp, 'pl) entity_proto)
     \<Rightarrow> ('kp, 'pl, 'qp, 'v) datastore_request \<Rightarrow> key_store \<Rightarrow> 'v entity_object list \<Rightarrow> fn option
     \<Rightarrow> 'kp commit_reply
     \<Rightarrow> js_error + (('kp, 'pl, 'qp, 'v) datastore_request
          \<times> (js_error + (key_store \<times> fn \<times> js_error option \<times> 'kp commit_response option)) option)"
  where
  "save keyToKeyProto keyFromKeyProto encodeValue entityToEntityProto this store entities callback reply =
     (case forEach_entities (forEach_body keyToKeyProto encodeValue entityToEntityProto store)
             0 entities ([], []) of
        Inl err \<Rightarrow> Inl err
      | Inr (insertIndexes, mutations) \<Rightarrow>
          (let protoOpts = \<lparr>po_service = ''Datastore'', po_method = ''commit''\<rparr>;
               reqOpts = empty_req\<lparr>req_mutations := Some mutations\<rparr>;
               closure = \<lparr>oc_insertIndexes = insertIndexes, oc_entities = entities,
                          oc_callback = callback\<rparr>
           in if truthy (this_id this)
              then Inr (this\<lparr>requests_priv := requests_priv this @ [reqOpts],
                              requestCallbacks_priv := requestCallbacks_priv this @ [closure]\<rparr>,
                        None)
              else Inr (request_priv this protoOpts reqOpts,
                        Some (onCommit keyFromKeyProto closure store reply))))"

section \<open>lib/datastore/request.js: runQuery\<close>

text \<open>
  Modelled from the spec: the Query class lives in lib/datastore/query.js, which is not among
  the sources.  The spec's data model gives a Query a limit, an offset and a start cursor next
  to its kinds, filters, orders and projection (\<open>q_rest\<close>); it is "cloned and mutated
  internally".  \<open>runQuery\<close> reads \<open>namespace\<close>, \<open>limitVal\<close> and
  \<open>offsetVal\<close>, with \<open>-1\<close> for a value that was never set, and calls the fluent
  setters \<open>start\<close>, \<open>offset\<close> and \<open>limit\<close>, each of which stores its argument.
\<close>

record 'q query_object =
  q_namespace :: "string option"
  limitVal :: int
  offsetVal :: int
  startVal :: "string option"
  q_rest :: 'q

definition Query_start :: "string \<Rightarrow> 'q query_object \<Rightarrow> 'q query_object" where
  "Query_start cursor q = q\<lparr>startVal := Some cursor\<rparr>"

definition Query_offset :: "int \<Rightarrow> 'q query_object \<Rightarrow> 'q query_object" where
  "Query_offset n q = q\<lparr>offsetVal := n\<rparr>"

definition Query_limit :: "int \<Rightarrow> 'q query_object \<Rightarrow> 'q query_object" where
  "Query_limit n q = q\<lparr>limitVal := n\<rparr>"

text \<open>A Buffer, known by the text that \<open>toString('base64')\<close> gives for it.\<close>

datatype buffer = Buffer (toString_base64: string)

record 'er batch =
  entityResults :: "'er list option"
  moreResults :: string
  endCursor :: "buffer option"
  skippedResults :: int

record 'er query_response =
  batch :: "'er batch option"

type_synonym 'er query_reply = "js_error option \<times> 'er query_response option"

text \<open>What has become of the caller's callback once the replies at hand are used up.\<close>

datatype 'a async_result = Awaiting | Thrown js_error | Invoked fn 'a

text \<open>
  Lines 463 to 469 of \<open>onResponse\<close>: the next query built from the caller's query and
  the batch.  \<open>extend(true, new Query(), query)\<close> is a copy of \<open>query\<close>.
\<close>

definition build_nextQuery :: "'q query_object \<Rightarrow> 'er batch \<Rightarrow> js_error + 'q query_object" where
  "build_nextQuery query b =
     (case endCursor b of
        None \<Rightarrow> Inl TypeError
      | Some cursor \<Rightarrow>
          (let offset = (if offsetVal query = -1 then 0 else offsetVal query);
               nextOffset = offset - skippedResults b;
               nextQuery = query
           in Inr (Query_offset nextOffset (Query_start (toString_base64 cursor) nextQuery))))"

text \<open>
  \<open>onResponse\<close>, applied to the replies of the transport in the order they arrive.
  \<open>queryToQueryProto\<close> and \<open>formatArray\<close> are functions of
  lib/datastore/entity.js, taken as parameters.  \<open>reqOpts\<close> and \<open>entities\<close> are the
  variables of \<open>runQuery\<close> that \<open>onResponse\<close> updates.
\<close>

fun onResponse ::
  "('q query_object \<Rightarrow> 'qp query_proto) \<Rightarrow> ('er list \<Rightarrow> 'ent list) \<Rightarrow> 'q query_object \<Rightarrow> int
     \<Rightarrow> fn option \<Rightarrow> ('kp, 'pl, 'qp, 'v) datastore_request \<Rightarrow> ('kp, 'pl, 'qp) req_opts
     \<Rightarrow> 'ent list \<Rightarrow> 'er query_reply list
     \<Rightarrow> ('kp, 'pl, 'qp, 'v) datastore_request
          \<times> (js_error option \<times> 'ent list option \<times> 'q query_object option
              \<times> 'er query_response option) async_result" where
  "onResponse queryToQueryProto formatArray query originalLimitVal callback this reqOpts entities []
     = (this, Awaiting)"
| "onResponse queryToQueryProto formatArray query originalLimitVal callback this reqOpts entities
     ((Some err, resp) # replies)
     = (this, case call callback (Some err, None, None, resp) of
                Inl e \<Rightarrow> Thrown e | Inr (f, args) \<Rightarrow> Invoked f args)"
| "onResponse queryToQueryProto formatArray query originalLimitVal callback this reqOpts entities
     ((None, None) # replies)
     = (this, Thrown TypeError)"
| "onResponse queryToQueryProto formatArray query originalLimitVal callback this reqOpts entities
     ((None, Some resp) # replies)
     = (case batch resp of
          None \<Rightarrow> (this, Thrown TypeError)
        | Some b \<Rightarrow>
            (let entities = (case entityResults b of
                               Some ers \<Rightarrow> entities @ formatArray ers | None \<Rightarrow> entities);
                 notFinished = (moreResults b = ''NOT_FINISHED'');
                 moreResults' = (moreResults b = ''MORE_RESULTS_AFTER_LIMIT'')
             in case (if notFinished \<or> moreResults'
                      then map_sum id Some (build_nextQuery query b) else Inr None) of
                  Inl e \<Rightarrow> (this, Thrown e)
                | Inr nextQuery \<Rightarrow>
                    (if notFinished then
                       (case (case req_query reqOpts of None \<Rightarrow> None | Some qp \<Rightarrow> qp_limit qp) of
                          None \<Rightarrow> (this, Thrown TypeError)
                        | Some limit \<Rightarrow>
                            (case (if limit > -1 then
                                     (case entityResults b of
                                        None \<Rightarrow> Inl TypeError
                                      | Some ers \<Rightarrow>
                                          Inr (map_option (Query_limit (limit - int (length ers)))
                                                 nextQuery))
                                   else Inr nextQuery) of
                               Inl e \<Rightarrow> (this, Thrown e)
                             | Inr None \<Rightarrow> (this, Thrown TypeError)
                             | Inr (Some nextQuery) \<Rightarrow>
                                 (let reqOpts = reqOpts\<lparr>req_query := Some (queryToQueryProto nextQuery)\<rparr>;
                                      this = request_priv this
                                               \<lparr>po_service = ''Datastore'', po_method = ''runQuery''\<rparr>
                                               reqOpts
                                  in onResponse queryToQueryProto formatArray query originalLimitVal
                                       callback this reqOpts entities replies)))
                     else
                       (let nextQuery = (if nextQuery \<noteq> None \<and> originalLimitVal > -1
                                         then map_option (Query_limit originalLimitVal) nextQuery
                                         else nextQuery)
                        in (this, case call callback (None, Some entities, nextQuery, Some resp) of
                                    Inl e \<Rightarrow> Thrown e | Inr (f, args) \<Rightarrow> Invoked f args)))))"

text \<open>
  \<open>DatastoreRequest.prototype.runQuery\<close>, given the replies the transport will deliver.
\<close>

definition runQuery ::
  "('q query_object \<Rightarrow> 'qp query_proto) \<Rightarrow> ('er list \<Rightarrow> 'ent list)
     \<Rightarrow> ('kp, 'pl, 'qp, 'v) datastore_request \<Rightarrow> 'q query_object \<Rightarrow> fn option
     \<Rightarrow> 'er query_reply list
     \<Rightarrow> ('kp, 'pl, 'qp, 'v) datastore_request
          \<times> (js_error option \<times> 'ent list option \<times> 'q query_object option
              \<times> 'er query_response option) async_result" where
  "runQuery queryToQueryProto formatArray this query callback replies =
     (let protoOpts = \<lparr>po_service = ''Datastore'', po_method = ''runQuery''\<rparr>;
          reqOpts = empty_req\<lparr>req_readOptions := Some \<lparr>ro_transaction = None\<rparr>,
                              req_query := Some (queryToQueryProto query)\<rparr>;
          reqOpts = (if truthy (q_namespace query)
                     then reqOpts\<lparr>req_partitionId := q_namespace query\<rparr> else reqOpts);
          originalLimitVal = limitVal query;
          entities = [];
          this = request_priv this protoOpts reqOpts
      in onResponse queryToQueryProto formatArray query originalLimitVal callback this reqOpts
           entities replies)"

section \<open>Values used to instantiate the theorems\<close>

text \<open>
  An incomplete and a complete key, a Datastore object (no transaction id) and a Transaction
  object (the id of the example in the file's own documentation).  The wire form of a key is
  taken to be the key itself in these instances.
\<close>

definition example_incomplete_key :: key where
  "example_incomplete_key =
     \<lparr>k_namespace = None, k_parents = [], k_kind = ''Company'', k_id = None, k_name = None\<rparr>"

definition example_complete_key :: key where
  "example_complete_key =
     \<lparr>k_namespace = None, k_parents = [], k_kind = ''Company'', k_id = Some 7, k_name = None\<rparr>"

definition example_datastore :: "(key, unit, unit, unit) datastore_request" where
  "example_datastore =
     \<lparr>this_id = None, this_projectId = Some ''project-id'', requests_priv = [],
      requestCallbacks_priv = [], sent = []\<rparr>"

definition example_transaction :: "(key, unit, unit, unit) datastore_request" where
  "example_transaction = example_datastore\<lparr>this_id := Some ''1234''\<rparr>"

text \<open>
  A store whose Key object 0 is the incomplete key, an entity with that key and no method,
  stand-ins for the encoders of lib/datastore/entity.js, and the closure and the request body
  that \<open>save\<close> builds for that entity.
\<close>

definition example_store :: key_store where
  "example_store = (\<lambda>_. example_complete_key)(0 := example_incomplete_key)"

definition example_entity :: "unit entity_object" where
  "example_entity = \<lparr>e_key = 0, e_method = None, e_data = DataObject ()\<rparr>"

definition example_entityToEntityProto :: "unit \<Rightarrow> (key, unit) entity_proto" where
  "example_entityToEntityProto obj = \<lparr>properties = Map.empty, ep_key = None\<rparr>"

definition example_encodeValue :: "unit \<Rightarrow> unit value_proto" where
  "example_encodeValue v = ValueProto () None None"

definition example_closure :: "unit on_commit" where
  "example_closure = \<lparr>oc_insertIndexes = [0], oc_entities = [example_entity], oc_callback = Some (Fn 0)\<rparr>"

definition example_commit_request :: "(key, unit, unit) req_opts" where
  "example_commit_request =
     empty_req\<lparr>req_mutations := Some [[(''upsert'',
        EntityArg \<lparr>properties = Map.empty, ep_key = Some example_incomplete_key\<rparr>)]]\<rparr>"

text \<open>
  A commit response that assigns id 5669 to the first mutation, and an entity in the explicit
  property-list form with a scalar and an array-valued property, both flagged, together with an
  encoder for such values and the entity proto \<open>save\<close> builds from it.
\<close>

definition example_commit_response :: "key commit_response" where
  "example_commit_response =
     \<lparr>mutationResults = Some [\<lparr>mr_key = Some (example_incomplete_key\<lparr>k_id := Some 5669\<rparr>)\<rparr>]\<rparr>"





text \<open>
  A query with limit 5 and no offset, a stand-in for \<open>queryToQueryProto\<close> that always
  wraps the limit, the first request body of \<open>runQuery\<close> for that query, two batches,
  and the replies of a server that answers "not finished" twice and then "more results after
  limit".
\<close>

definition example_queryToQueryProto :: "unit query_object \<Rightarrow> unit query_proto" where
  "example_queryToQueryProto q = \<lparr>qp_limit = Some (limitVal q), qp_rest = ()\<rparr>"

definition example_query :: "unit query_object" where
  "example_query =
     \<lparr>q_namespace = None, limitVal = 5, offsetVal = -1, startVal = None, q_rest = ()\<rparr>"

definition example_batch_not_finished :: "string batch" where
  "example_batch_not_finished =
     \<lparr>entityResults = Some [''a'', ''b''], moreResults = ''NOT_FINISHED'',
      endCursor = Some (Buffer ''Y3Vyc29yMQ==''), skippedResults = 0\<rparr>"

definition example_batch_more_results :: "string batch" where
  "example_batch_more_results =
     \<lparr>entityResults = Some [''c''], moreResults = ''MORE_RESULTS_AFTER_LIMIT'',
      endCursor = Some (Buffer ''Y3Vyc29yMg==''), skippedResults = 0\<rparr>"

definition example_query_request :: "(key, unit, unit) req_opts" where
  "example_query_request =
     empty_req\<lparr>req_readOptions := Some \<lparr>ro_transaction = None\<rparr>,
               req_query := Some (example_queryToQueryProto example_query)\<rparr>"

definition example_replies :: "string query_reply list" where
  "example_replies =
     map (\<lambda>b. (None, Some \<lparr>batch = Some b\<rparr>))
       ([example_batch_not_finished,
         example_batch_not_finished\<lparr>entityResults := Some [''x'']\<rparr>]
        @ [example_batch_more_results]) @ []"

text \<open>
  \<open>entity.queryToQueryProto\<close> is not among the sources.  This stand-in puts the limit
  wrapper into the query proto only when the limit is positive; nothing in
  \<open>runQuery\<close> makes the encoder put it there otherwise.
\<close>

definition example_queryToQueryProto_positive :: "unit query_object \<Rightarrow> unit query_proto" where
  "example_queryToQueryProto_positive q =
     \<lparr>qp_limit = (if limitVal q > 0 then Some (limitVal q) else None), qp_rest = ()\<rparr>"

section \<open>Properties of the firewall wrapper\<close>

text \<open>
  C8.  For delete and for setMetadata alike: when the transport reports success with response
  \<open>r\<close>, the callback receives \<open>(null, operation, r)\<close> where the operation's name is
  \<open>r\<close>'s name property and its metadata is \<open>r\<close> itself; when the transport reports
  an error \<open>e\<close>, the callback receives \<open>(e, null, resp)\<close>.
\<close>

theorem firewall_callback_wraps_operation:
  "Firewall_delete this (None, Some r)
     = Inr (None, Some \<lparr>op_name = resp_name r, op_metadata = Some r\<rparr>, Some r)
   \<and> snd (Firewall_setMetadata this md (None, Some r))
     = Inr (None, Some \<lparr>op_name = resp_name r, op_metadata = Some r\<rparr>, Some r)
   \<and> Firewall_delete this (Some e, resp) = Inr (Some e, None, resp)
   \<and> snd (Firewall_setMetadata this md (Some e, resp)) = Inr (Some e, None, resp)"
  by (simp add: Firewall_delete_def Firewall_setMetadata_def compute_operation_def Let_def)

section \<open>Properties of the Datastore request mixin\<close>

text \<open>
  C6.  \<open>allocateIds\<close> with a complete key throws before anything is sent, whatever the
  other arguments.  With an incomplete key it sends one \<open>allocateIds\<close> request whose
  \<open>keys\<close> are \<open>n\<close> copies of the key's wire form (none when \<open>n\<close> is
  not positive), and on a successful reply the callback receives the decoded keys of the
  response, in the order of the response.
\<close>

theorem allocateIds_contract:
  "(isKeyComplete k \<longrightarrow>
      allocateIds keyToKeyProto keyFromKeyProto this k n callback reply
        = Inl (Error ''An incomplete key should be provided.''))
   \<and> (\<not> isKeyComplete k \<longrightarrow>
      allocateIds keyToKeyProto keyFromKeyProto this k n (Some f) (None, Some r)
        = Inr (this\<lparr>sent := sent this @
                 [(\<lparr>po_service = ''Datastore'', po_method = ''allocateIds''\<rparr>,
                   empty_req\<lparr>req_keys := Some (replicate (nat n) (keyToKeyProto k)),
                             req_projectId := this_projectId this\<rparr>)]\<rparr>,
               Inr (f, None,
                    Some (map keyFromKeyProto (case ar_keys r of None \<Rightarrow> [] | Some ks \<Rightarrow> ks)),
                    Some r)))"
  by (simp add: allocateIds_def request_priv_def call_def Let_def)

theorem allocateIds_contract_witness:
  "isKeyComplete example_complete_key
   \<and> allocateIds id id example_datastore example_complete_key 2 (Some (Fn 0)) (None, None)
       = Inl (Error ''An incomplete key should be provided.'')
   \<and> \<not> isKeyComplete example_incomplete_key
   \<and> allocateIds id id example_datastore example_incomplete_key 2 (Some (Fn 0))
         (None, Some \<lparr>ar_keys = Some [example_incomplete_key\<lparr>k_id := Some 11\<rparr>,
                                      example_incomplete_key\<lparr>k_id := Some 12\<rparr>]\<rparr>)
       = Inr (example_datastore\<lparr>sent :=
                [(\<lparr>po_service = ''Datastore'', po_method = ''allocateIds''\<rparr>,
                  empty_req\<lparr>req_keys := Some [example_incomplete_key, example_incomplete_key],
                            req_projectId := Some ''project-id''\<rparr>)]\<rparr>,
              Inr (Fn 0, None,
                   Some [example_incomplete_key\<lparr>k_id := Some 11\<rparr>,
                         example_incomplete_key\<lparr>k_id := Some 12\<rparr>],
                   Some \<lparr>ar_keys = Some [example_incomplete_key\<lparr>k_id := Some 11\<rparr>,
                                        example_incomplete_key\<lparr>k_id := Some 12\<rparr>]\<rparr>))"
  using allocateIds_contract
          [where k = example_complete_key and keyToKeyProto = id and keyFromKeyProto = id
             and this = example_datastore and n = 2 and callback = "Some (Fn 0)"
             and reply = "(None, None)"]
        allocateIds_contract
          [where k = example_incomplete_key and keyToKeyProto = id and keyFromKeyProto = id
             and this = example_datastore and n = 2 and f = "Fn 0"
             and r = "\<lparr>ar_keys = Some [example_incomplete_key\<lparr>k_id := Some 11\<rparr>,
                                      example_incomplete_key\<lparr>k_id := Some 12\<rparr>]\<rparr>"]
  by (simp add: isKeyComplete_def example_complete_key_def example_incomplete_key_def
        example_datastore_def numeral_2_eq_2)

section \<open>save and delete: evaluation at the example values\<close>

lemma example_forEach:
  "forEach_entities (forEach_body id example_encodeValue example_entityToEntityProto example_store)
     0 [example_entity] ([], [])
   = Inr ([0], [[(''upsert'', EntityArg \<lparr>properties = Map.empty, ep_key = Some example_incomplete_key\<rparr>)]])"
  by (simp add: forEach_body_def example_entity_def example_store_def truthy_def isKeyComplete_def
        example_incomplete_key_def example_entityToEntityProto_def)


lemma example_save_transaction:
  "save id id example_encodeValue example_entityToEntityProto example_transaction example_store
     [example_entity] (Some (Fn 0)) (None, None)
   = Inr (example_transaction\<lparr>requests_priv := [example_commit_request],
                              requestCallbacks_priv := [example_closure]\<rparr>, None)"
  by (simp add: save_def example_forEach example_transaction_def example_datastore_def truthy_def
        example_closure_def example_commit_request_def del: forEach_entities.simps)

lemma example_save_direct:
  "save id id example_encodeValue example_entityToEntityProto example_datastore example_store
     [example_entity] (Some (Fn 0)) (None, None)
   = Inr (example_datastore\<lparr>sent :=
            [(\<lparr>po_service = ''Datastore'', po_method = ''commit''\<rparr>,
              example_commit_request\<lparr>req_projectId := Some ''project-id'',
                                      req_mode := Some ''NON_TRANSACTIONAL''\<rparr>)]\<rparr>,
          Some (Inr (example_store, Fn 0, None, None)))"
  by (simp add: save_def example_forEach example_datastore_def truthy_def request_priv_def
        example_closure_def example_commit_request_def onCommit_def call_def
        del: forEach_entities.simps)


section \<open>save and delete: buffering in a transaction\<close>

text \<open>
  C3.  On an object whose transaction id is set (a non-empty string, which is what the test
  \<open>if (this.id)\<close> accepts), \<open>delete\<close> sends nothing and appends its payload to
  the queue; a \<open>save\<close> that returns (one that throws leaves the object as it was)
  sends nothing either and lengthens the queue by exactly the one payload holding the
  mutations it built.  On an object without a transaction id both send the payload at once as
  one non-transactional \<open>commit\<close> request and leave the queue alone.
\<close>

theorem transactional_buffering:
  "(truthy (this_id this) \<longrightarrow>
      delete keyToKeyProto this ks callback reply
        = (this\<lparr>requests_priv := requests_priv this @
                   [empty_req\<lparr>req_mutations :=
                      Some (map (\<lambda>key. [(''delete'', KeyArg (keyToKeyProto key))]) ks)\<rparr>]\<rparr>,
           None))
   \<and> (truthy (this_id this)
        \<and> save keyToKeyProto keyFromKeyProto encodeValue entityToEntityProto this store entities
              callback creply = Inr (this', out) \<longrightarrow>
        sent this' = sent this \<and> out = None
        \<and> length (requests_priv this') = Suc (length (requests_priv this))
        \<and> (\<exists>insertIndexes mutations.
              forEach_entities (forEach_body keyToKeyProto encodeValue entityToEntityProto store)
                0 entities ([], []) = Inr (insertIndexes, mutations)
              \<and> requests_priv this' = requests_priv this @
                    [empty_req\<lparr>req_mutations := Some mutations\<rparr>]))
   \<and> (this_id this = None \<longrightarrow>
        delete keyToKeyProto this ks callback reply
          = (this\<lparr>sent := sent this @
                   [(\<lparr>po_service = ''Datastore'', po_method = ''commit''\<rparr>,
                     empty_req\<lparr>req_mutations :=
                                 Some (map (\<lambda>key. [(''delete'', KeyArg (keyToKeyProto key))]) ks),
                               req_projectId := this_projectId this,
                               req_mode := Some ''NON_TRANSACTIONAL''\<rparr>)]\<rparr>,
             Some (case callback of None \<Rightarrow> Noop | Some f \<Rightarrow> f, reply)))
   \<and> (this_id this = None
        \<and> save keyToKeyProto keyFromKeyProto encodeValue entityToEntityProto this store entities
              callback creply = Inr (this', out) \<longrightarrow>
        requests_priv this' = requests_priv this \<and> out \<noteq> None
        \<and> (\<exists>insertIndexes mutations.
              forEach_entities (forEach_body keyToKeyProto encodeValue entityToEntityProto store)
                0 entities ([], []) = Inr (insertIndexes, mutations)
              \<and> sent this' = sent this @
                    [(\<lparr>po_service = ''Datastore'', po_method = ''commit''\<rparr>,
                      empty_req\<lparr>req_mutations := Some mutations,
                                req_projectId := this_projectId this,
                                req_mode := Some ''NON_TRANSACTIONAL''\<rparr>)]))"
  by (auto simp: delete_def save_def request_priv_def truthy_def Let_def
           split: sum.splits prod.splits option.splits)

theorem transactional_buffering_witness:
  "truthy (this_id example_transaction)
   \<and> delete id example_transaction [example_complete_key] (Some (Fn 1)) ()
       = (example_transaction\<lparr>requests_priv :=
            [empty_req\<lparr>req_mutations := Some [[(''delete'', KeyArg example_complete_key)]]\<rparr>]\<rparr>, None)
   \<and> save id id example_encodeValue example_entityToEntityProto example_transaction example_store
         [example_entity] (Some (Fn 0)) (None, None)
       = Inr (example_transaction\<lparr>requests_priv := [example_commit_request],
                                  requestCallbacks_priv := [example_closure]\<rparr>, None)
   \<and> sent (example_transaction\<lparr>requests_priv := [example_commit_request],
                                requestCallbacks_priv := [example_closure]\<rparr>) = []
   \<and> this_id example_datastore = None
   \<and> delete id example_datastore [example_complete_key] (Some (Fn 1)) ()
       = (example_datastore\<lparr>sent :=
            [(\<lparr>po_service = ''Datastore'', po_method = ''commit''\<rparr>,
              empty_req\<lparr>req_mutations := Some [[(''delete'', KeyArg example_complete_key)]],
                        req_projectId := Some ''project-id'',
                        req_mode := Some ''NON_TRANSACTIONAL''\<rparr>)]\<rparr>, Some (Fn 1, ()))
   \<and> save id id example_encodeValue example_entityToEntityProto example_datastore example_store
         [example_entity] (Some (Fn 0)) (None, None)
       = Inr (example_datastore\<lparr>sent :=
                [(\<lparr>po_service = ''Datastore'', po_method = ''commit''\<rparr>,
                  example_commit_request\<lparr>req_projectId := Some ''project-id'',
                                          req_mode := Some ''NON_TRANSACTIONAL''\<rparr>)]\<rparr>,
              Some (Inr (example_store, Fn 0, None, None)))"
  using transactional_buffering
          [where this = example_transaction and keyToKeyProto = id and keyFromKeyProto = id
             and ks = "[example_complete_key]" and callback = "Some (Fn 1)" and reply = "()"
             and encodeValue = example_encodeValue
             and entityToEntityProto = example_entityToEntityProto and store = example_store
             and entities = "[example_entity]" and creply = "(None, None)"
             and this' = "example_transaction\<lparr>requests_priv := [example_commit_request],
                                               requestCallbacks_priv := [example_closure]\<rparr>"
             and out = None]
        transactional_buffering
          [where this = example_datastore and keyToKeyProto = id and keyFromKeyProto = id
             and ks = "[example_complete_key]" and callback = "Some (Fn 1)" and reply = "()"]
        example_save_transaction example_save_direct
  by (simp add: example_transaction_def example_datastore_def truthy_def)


text \<open>
  C9.  On an object whose transaction id is set, \<open>delete\<close> appends its mutation payload
  to the queue of requests and does nothing else: it calls no callback, sends nothing and
  leaves the list of queued callbacks as it was, so the caller's callback is dropped.  A
  \<open>save\<close> that returns appends the payload holding the mutations it built to the queue
  of requests and, alongside it, its \<open>onCommit\<close> closure, which holds the caller's
  callback, to the list of queued callbacks; nothing else of the object changes.
\<close>

theorem transactional_delete_drops_callback:
  "(truthy (this_id this) \<longrightarrow>
      delete keyToKeyProto this ks callback reply
        = (this\<lparr>requests_priv := requests_priv this @
                   [empty_req\<lparr>req_mutations :=
                      Some (map (\<lambda>key. [(''delete'', KeyArg (keyToKeyProto key))]) ks)\<rparr>]\<rparr>,
           None)
      \<and> snd (delete keyToKeyProto this ks callback reply) = None
      \<and> requestCallbacks_priv (fst (delete keyToKeyProto this ks callback reply))
          = requestCallbacks_priv this
      \<and> sent (fst (delete keyToKeyProto this ks callback reply)) = sent this)
   \<and> (truthy (this_id this)
        \<and> save keyToKeyProto keyFromKeyProto encodeValue entityToEntityProto this store entities
              callback creply = Inr (this', out) \<longrightarrow>
        out = None
        \<and> (\<exists>insertIndexes mutations.
              forEach_entities (forEach_body keyToKeyProto encodeValue entityToEntityProto store)
                0 entities ([], []) = Inr (insertIndexes, mutations)
              \<and> this' = this\<lparr>requests_priv := requests_priv this @
                                  [empty_req\<lparr>req_mutations := Some mutations\<rparr>],
                               requestCallbacks_priv := requestCallbacks_priv this @
                                  [\<lparr>oc_insertIndexes = insertIndexes, oc_entities = entities,
                                    oc_callback = callback\<rparr>]\<rparr>))"
  by (auto simp: delete_def save_def truthy_def Let_def
           split: sum.splits prod.splits option.splits)

theorem transactional_delete_drops_callback_witness:
  "truthy (this_id example_transaction)
   \<and> delete id example_transaction [example_complete_key] (Some (Fn 1)) ()
       = (example_transaction\<lparr>requests_priv :=
            [empty_req\<lparr>req_mutations := Some [[(''delete'', KeyArg example_complete_key)]]\<rparr>]\<rparr>, None)
   \<and> requestCallbacks_priv (fst (delete id example_transaction [example_complete_key] (Some (Fn 1)) ()))
       = []
   \<and> sent (fst (delete id example_transaction [example_complete_key] (Some (Fn 1)) ())) = []
   \<and> save id id example_encodeValue example_entityToEntityProto example_transaction example_store
         [example_entity] (Some (Fn 0)) (None, None)
       = Inr (example_transaction\<lparr>requests_priv := [example_commit_request],
                                  requestCallbacks_priv := [example_closure]\<rparr>, None)
   \<and> oc_callback example_closure = Some (Fn 0)"
  using transactional_delete_drops_callback
          [where this = example_transaction and keyToKeyProto = id and keyFromKeyProto = id
             and ks = "[example_complete_key]" and callback = "Some (Fn 1)" and reply = "()"
             and encodeValue = example_encodeValue
             and entityToEntityProto = example_entityToEntityProto and store = example_store
             and entities = "[example_entity]" and creply = "(None, None)"
             and this' = "example_transaction\<lparr>requests_priv := [example_commit_request],
                                               requestCallbacks_priv := [example_closure]\<rparr>"
             and out = None]
        example_save_transaction
  by (simp add: example_transaction_def example_datastore_def truthy_def example_closure_def)


section \<open>save: the mutation method\<close>

text \<open>
  The method of the mutation that \<open>save\<close> builds for an entity, when it builds one, and
  the exception for a method name that the lookup in \<open>methods\<close> rejects.
\<close>

lemma forEach_body_method:
  "forEach_body keyToKeyProto encodeValue entityToEntityProto store entityObject = Inr (pending, mutation)
   \<Longrightarrow> map fst mutation =
         (case e_method entityObject of
            None \<Rightarrow> [''upsert'']
          | Some m \<Rightarrow> if m = [] then [''upsert''] else if m = ''__proto__'' then [] else [m])"
  by (auto simp: forEach_body_def truthy_def Let_def split: option.splits if_splits)

lemma forEach_body_throws:
  "m \<noteq> [] \<Longrightarrow> \<not> methods_lookup m \<Longrightarrow>
   forEach_body keyToKeyProto encodeValue entityToEntityProto store (entityObject\<lparr>e_method := Some m\<rparr>)
     = Inl (Error (''Method '' @ m @ '' not recognized.''))"
  by (simp add: forEach_body_def truthy_def)

text \<open>
  C7.  An entity whose method is \<open>constructor\<close> is not refused: the lookup
  \<open>methods['constructor']\<close> finds the inherited property, nothing is thrown, and the
  commit request carries a mutation keyed \<open>constructor\<close>.
\<close>

theorem save_accepts_inherited_method_name:
  "save id id example_encodeValue example_entityToEntityProto example_datastore example_store
     [example_entity\<lparr>e_method := Some ''constructor''\<rparr>] (Some (Fn 0)) (None, None)
   = Inr (example_datastore\<lparr>sent :=
            [(\<lparr>po_service = ''Datastore'', po_method = ''commit''\<rparr>,
              empty_req\<lparr>req_mutations := Some [[(''constructor'',
                           EntityArg \<lparr>properties = Map.empty, ep_key = Some example_incomplete_key\<rparr>)]],
                        req_projectId := Some ''project-id'',
                        req_mode := Some ''NON_TRANSACTIONAL''\<rparr>)]\<rparr>,
          Some (Inr (example_store, Fn 0, None, None)))"
  by (simp add: save_def forEach_body_def example_entity_def example_store_def truthy_def
        isKeyComplete_def example_incomplete_key_def example_entityToEntityProto_def
        example_datastore_def request_priv_def onCommit_def call_def methods_lookup_def
        Object_prototype_names_def)

section \<open>save: ids written back on commit\<close>

text \<open>
  The loop over the mutation results never throws when every index entered in
  \<open>insertIndexes\<close> is an index of \<open>entities\<close>; it leaves alone every Key object
  it does not write to; and the id it writes for an index stays unless a later index writes to
  the same Key object.
\<close>

lemma forEach_results_total:
  "(\<forall>j < length rs. index + j \<in> set insertIndexes \<longrightarrow> index + j < length entities)
   \<Longrightarrow> \<exists>store'. forEach_results keyFromKeyProto insertIndexes entities index rs store = Inr store'"
proof (induction rs arbitrary: index store)
  case Nil
  then show ?case by simp
next
  case (Cons r rs)
  have tail: "\<forall>j < length rs. Suc index + j \<in> set insertIndexes \<longrightarrow> Suc index + j < length entities"
    using Cons.prems by fastforce
  have head: "index \<in> set insertIndexes \<longrightarrow> index < length entities"
    using Cons.prems by fastforce
  show ?case
    using Cons.IH [OF tail] head by (simp add: Let_def split: option.splits)
qed

lemma forEach_results_untouched:
  "forEach_results keyFromKeyProto insertIndexes entities index rs store = Inr store'
   \<Longrightarrow> (\<forall>j < length rs. index + j \<in> set insertIndexes \<longrightarrow> mr_key (rs ! j) \<noteq> None
          \<longrightarrow> e_key (entities ! (index + j)) \<noteq> a)
   \<Longrightarrow> store' a = store a"
proof (induction rs arbitrary: index store)
  case Nil
  then show ?case by simp
next
  case (Cons r rs)
  have tail: "\<forall>j < length rs. Suc index + j \<in> set insertIndexes \<longrightarrow> mr_key (rs ! j) \<noteq> None
                \<longrightarrow> e_key (entities ! (Suc index + j)) \<noteq> a"
    using Cons.prems(2) by fastforce
  have head: "index \<in> set insertIndexes \<longrightarrow> mr_key r \<noteq> None \<longrightarrow> e_key (entities ! index) \<noteq> a"
    using Cons.prems(2) by fastforce
  show ?case
    using Cons.prems(1) Cons.IH [OF _ tail] head
    by (auto simp: Let_def split: option.splits if_splits)
qed

lemma forEach_results_writes:
  "forEach_results keyFromKeyProto insertIndexes entities index rs store = Inr store'
   \<Longrightarrow> i < length rs \<Longrightarrow> index + i \<in> set insertIndexes \<Longrightarrow> mr_key (rs ! i) = Some kp
   \<Longrightarrow> (\<forall>j < length rs. i < j \<longrightarrow> index + j \<in> set insertIndexes \<longrightarrow> mr_key (rs ! j) \<noteq> None
          \<longrightarrow> e_key (entities ! (index + j)) \<noteq> e_key (entities ! (index + i)))
   \<Longrightarrow> k_id (store' (e_key (entities ! (index + i)))) = k_id (keyFromKeyProto kp)"
proof (induction rs arbitrary: index store i)
  case Nil
  then show ?case by simp
next
  case (Cons r rs)
  show ?case
  proof (cases i)
    case 0
    have tail: "\<forall>j < length rs. Suc index + j \<in> set insertIndexes \<longrightarrow> mr_key (rs ! j) \<noteq> None
                  \<longrightarrow> e_key (entities ! (Suc index + j)) \<noteq> e_key (entities ! index)"
      using Cons.prems(5) 0 by fastforce
    from Cons.prems(1-4) 0 show ?thesis
      by (auto simp: Let_def split: if_splits dest: forEach_results_untouched [OF _ tail])
  next
    case (Suc i')
    have tail: "\<forall>j < length rs. i' < j \<longrightarrow> Suc index + j \<in> set insertIndexes \<longrightarrow> mr_key (rs ! j) \<noteq> None
                  \<longrightarrow> e_key (entities ! (Suc index + j)) \<noteq> e_key (entities ! (Suc index + i'))"
      using Cons.prems(5) Suc by fastforce
    have rest: "\<exists>s. forEach_results keyFromKeyProto insertIndexes entities (Suc index) rs s = Inr store'"
      using Cons.prems(1) by (auto simp: Let_def split: option.splits if_splits)
    then obtain s where s: "forEach_results keyFromKeyProto insertIndexes entities (Suc index) rs s = Inr store'"
      by blast
    have "k_id (store' (e_key (entities ! (Suc index + i')))) = k_id (keyFromKeyProto kp)"
      using Cons.IH [OF s _ _ _ tail] Cons.prems(2-4) Suc by simp
    then show ?thesis using Suc by simp
  qed
qed

text \<open>
  \<open>insertIndexes\<close> as \<open>save\<close> builds it: the indices of the entities whose key
  is incomplete when \<open>save\<close> is called.
\<close>

lemma forEach_entities_insertIndexes:
  "forEach_entities body index ents acc = Inr (ins, muts)
   \<Longrightarrow> set ins = set (fst acc) \<union> {index + j |j. j < length ents \<and> (\<exists>m. body (ents ! j) = Inr (True, m))}"
proof (induction ents arbitrary: index acc)
  case Nil
  then show ?case by auto
next
  case (Cons e ents)
  from Cons.prems obtain p m where pm: "body e = Inr (p, m)"
    by (auto split: sum.splits)
  with Cons.prems have rec: "forEach_entities body (Suc index) ents
       ((if p then fst acc @ [index] else fst acc), snd acc @ [m]) = Inr (ins, muts)"
    by simp
  have shift: "{index + j |j. j < length (e # ents) \<and> (\<exists>m. body ((e # ents) ! j) = Inr (True, m))}
      = (if p then {index} else {}) \<union>
        {Suc index + j |j. j < length ents \<and> (\<exists>m. body (ents ! j) = Inr (True, m))}"
    (is "?L = ?R")
  proof (intro set_eqI iffI)
    fix x assume "x \<in> ?L"
    then obtain j where j: "x = index + j" "j < length (e # ents)" "\<exists>m. body ((e # ents) ! j) = Inr (True, m)"
      by blast
    show "x \<in> ?R"
    proof (cases j)
      case 0 with j pm show ?thesis by auto
    next
      case (Suc j') with j show ?thesis by auto
    qed
  next
    fix x assume "x \<in> ?R"
    then consider "p" "x = index" | j where "x = Suc index + j" "j < length ents" "\<exists>m. body (ents ! j) = Inr (True, m)"
      by (auto split: if_splits)
    then show "x \<in> ?L"
    proof cases
      case 1
      then have "x = index + 0 \<and> 0 < length (e # ents) \<and> (\<exists>m. body ((e # ents) ! 0) = Inr (True, m))"
        using pm by simp
      then show ?thesis by blast
    next
      case 2
      then have "x = index + Suc j \<and> Suc j < length (e # ents) \<and> (\<exists>m. body ((e # ents) ! Suc j) = Inr (True, m))"
        by simp
      then show ?thesis by blast
    qed
  qed
  show ?case
    unfolding Cons.IH [OF rec] shift by auto
qed

lemma forEach_body_pending:
  "forEach_body keyToKeyProto encodeValue entityToEntityProto store e = Inr (p, m)
   \<Longrightarrow> p = (\<not> isKeyComplete (store (e_key e)))"
  by (auto simp: forEach_body_def Let_def split: option.splits if_splits)


lemma save_insertIndexes:
  assumes "forEach_entities (forEach_body keyToKeyProto encodeValue entityToEntityProto store0)
             0 entities ([], []) = Inr (insertIndexes, mutations)"
  shows "set insertIndexes \<subseteq> {j. j < length entities}"
    and "i < length entities \<Longrightarrow> \<not> isKeyComplete (store0 (e_key (entities ! i)))
         \<Longrightarrow> i \<in> set insertIndexes"
proof -
  let ?body = "forEach_body keyToKeyProto encodeValue entityToEntityProto store0"
  have ins: "set insertIndexes
      = {0 + j |j. j < length entities \<and> (\<exists>m. ?body (entities ! j) = Inr (True, m))}"
    using forEach_entities_insertIndexes [OF assms] by simp
  show "set insertIndexes \<subseteq> {j. j < length entities}"
    unfolding ins by auto
  have all: "\<And>k acc ents ins muts. forEach_entities ?body k ents acc = Inr (ins, muts)
         \<Longrightarrow> \<forall>e \<in> set ents. \<exists>p m. ?body e = Inr (p, m)"
  proof -
    fix k acc ents ins muts
    show "forEach_entities ?body k ents acc = Inr (ins, muts)
          \<Longrightarrow> \<forall>e \<in> set ents. \<exists>p m. ?body e = Inr (p, m)"
      by (induction ents arbitrary: k acc) (auto split: sum.splits)
  qed
  assume i: "i < length entities" and inc: "\<not> isKeyComplete (store0 (e_key (entities ! i)))"
  from all [OF assms] i obtain p m where pm: "?body (entities ! i) = Inr (p, m)"
    by (meson nth_mem)
  with inc have "p" using forEach_body_pending [OF pm] by simp
  with pm i show "i \<in> set insertIndexes"
    unfolding ins by auto
qed

text \<open>
  C4.  Let \<open>save\<close> build its closure for \<open>entities\<close>, let the entity at index
  \<open>i\<close> have an incomplete key, and let the commit succeed with a mutation result at
  index \<open>i\<close> that carries a key.  Then processing the results up to index \<open>i\<close>
  writes the id of that key into the Key object of entity \<open>i\<close>, in the store shared
  with the caller; after the whole of \<open>onCommit\<close> the Key object still has that id,
  provided no later entity with a result key is the very same Key object (its write would come
  after); and the callback receives \<open>(null, resp)\<close>.  On an object without a
  transaction id \<open>save\<close> runs this \<open>onCommit\<close> on the transport's reply.
\<close>

theorem save_assigns_generated_id:
  assumes build: "forEach_entities (forEach_body keyToKeyProto encodeValue entityToEntityProto store0)
                    0 entities ([], []) = Inr (insertIndexes, mutations)"
    and i: "i < length entities"
    and incomplete: "\<not> isKeyComplete (store0 (e_key (entities ! i)))"
    and results: "mutationResults resp = Some results" "i < length results"
    and generated: "mr_key (results ! i) = Some kp"
  shows "(\<exists>s. forEach_results keyFromKeyProto insertIndexes entities 0 (take (Suc i) results) store
                = Inr s
              \<and> k_id (s (e_key (entities ! i))) = k_id (keyFromKeyProto kp))
       \<and> ((\<forall>j. i < j \<and> j < length entities \<and> j < length results \<and> mr_key (results ! j) \<noteq> None
                \<longrightarrow> e_key (entities ! j) \<noteq> e_key (entities ! i)) \<longrightarrow>
            (\<exists>store'. onCommit keyFromKeyProto
                         \<lparr>oc_insertIndexes = insertIndexes, oc_entities = entities,
                          oc_callback = Some f\<rparr> store (None, Some resp)
                       = Inr (store', f, None, Some resp)
                     \<and> k_id (store' (e_key (entities ! i))) = k_id (keyFromKeyProto kp)))
       \<and> (this_id this = None \<longrightarrow>
            (\<exists>this'. save keyToKeyProto keyFromKeyProto encodeValue entityToEntityProto this store0
                        entities (Some f) (None, Some resp)
                      = Inr (this', Some (onCommit keyFromKeyProto
                                            \<lparr>oc_insertIndexes = insertIndexes, oc_entities = entities,
                                             oc_callback = Some f\<rparr> store0 (None, Some resp)))))"
proof (intro conjI impI)
  note range = save_insertIndexes(1) [OF build]
  note member = save_insertIndexes(2) [OF build i incomplete]
  have tot: "\<And>rs. \<exists>s. forEach_results keyFromKeyProto insertIndexes entities 0 rs store = Inr s"
    using range by (intro forEach_results_total) auto
  show "\<exists>s. forEach_results keyFromKeyProto insertIndexes entities 0 (take (Suc i) results) store
                = Inr s
              \<and> k_id (s (e_key (entities ! i))) = k_id (keyFromKeyProto kp)"
  proof -
    from tot obtain s where s: "forEach_results keyFromKeyProto insertIndexes entities 0
                                  (take (Suc i) results) store = Inr s"
      by blast
    have "k_id (s (e_key (entities ! (0 + i)))) = k_id (keyFromKeyProto kp)"
      using results(2) generated member
      by (intro forEach_results_writes [OF s]) auto
    with s show ?thesis by simp
  qed
next
  note range = save_insertIndexes(1) [OF build]
  note member = save_insertIndexes(2) [OF build i incomplete]
  assume noalias: "\<forall>j. i < j \<and> j < length entities \<and> j < length results \<and> mr_key (results ! j) \<noteq> None
                \<longrightarrow> e_key (entities ! j) \<noteq> e_key (entities ! i)"
  have "\<exists>s. forEach_results keyFromKeyProto insertIndexes entities 0 results store = Inr s"
    using range by (intro forEach_results_total) auto
  then obtain s where s: "forEach_results keyFromKeyProto insertIndexes entities 0 results store = Inr s"
    by blast
  have "k_id (s (e_key (entities ! (0 + i)))) = k_id (keyFromKeyProto kp)"
    using results(2) generated member noalias range
    by (intro forEach_results_writes [OF s]) auto
  with s results(1)
  show "\<exists>store'. onCommit keyFromKeyProto
                         \<lparr>oc_insertIndexes = insertIndexes, oc_entities = entities,
                          oc_callback = Some f\<rparr> store (None, Some resp)
                       = Inr (store', f, None, Some resp)
                     \<and> k_id (store' (e_key (entities ! i))) = k_id (keyFromKeyProto kp)"
    by (simp add: onCommit_def call_def)
next
  assume "this_id this = None"
  then show "\<exists>this'. save keyToKeyProto keyFromKeyProto encodeValue entityToEntityProto this store0
                        entities (Some f) (None, Some resp)
                      = Inr (this', Some (onCommit keyFromKeyProto
                                            \<lparr>oc_insertIndexes = insertIndexes, oc_entities = entities,
                                             oc_callback = Some f\<rparr> store0 (None, Some resp)))"
    using build by (simp add: save_def truthy_def Let_def)
qed


theorem save_assigns_generated_id_witness:
  "forEach_entities (forEach_body id example_encodeValue example_entityToEntityProto example_store)
     0 [example_entity] ([], [])
     = Inr ([0], [[(''upsert'', EntityArg \<lparr>properties = Map.empty, ep_key = Some example_incomplete_key\<rparr>)]])
   \<and> \<not> isKeyComplete (example_store (e_key ([example_entity] ! 0)))
   \<and> mr_key ([\<lparr>mr_key = Some (example_incomplete_key\<lparr>k_id := Some 5669\<rparr>)\<rparr>] ! 0)
       = Some (example_incomplete_key\<lparr>k_id := Some 5669\<rparr>)
   \<and> (\<exists>store'. onCommit id example_closure example_store (None, Some example_commit_response)
                   = Inr (store', Fn 0, None, Some example_commit_response)
                 \<and> k_id (store' 0) = Some 5669)"
proof -
  let ?kp = "example_incomplete_key\<lparr>k_id := Some 5669\<rparr>"
  let ?results = "[\<lparr>mr_key = Some ?kp\<rparr>]"
  have incomplete: "\<not> isKeyComplete (example_store (e_key ([example_entity] ! 0)))"
    by (simp add: example_store_def example_entity_def isKeyComplete_def example_incomplete_key_def)
  have results: "mutationResults example_commit_response = Some ?results"
    by (simp add: example_commit_response_def)
  have generated: "mr_key (?results ! 0) = Some ?kp"
    by simp
  have alone: "\<forall>j. 0 < j \<and> j < length [example_entity] \<and> j < length ?results
                  \<and> mr_key (?results ! j) \<noteq> None
               \<longrightarrow> e_key ([example_entity] ! j) \<noteq> e_key ([example_entity] ! 0)"
    by auto
  from save_assigns_generated_id
         [OF example_forEach _ incomplete results _ generated,
          where keyFromKeyProto = id and store = example_store and f = "Fn 0"
            and this = example_datastore]
  have "(\<forall>j. 0 < j \<and> j < length [example_entity] \<and> j < length ?results
                  \<and> mr_key (?results ! j) \<noteq> None
               \<longrightarrow> e_key ([example_entity] ! j) \<noteq> e_key ([example_entity] ! 0))
        \<longrightarrow> (\<exists>store'. onCommit id
                         \<lparr>oc_insertIndexes = [0], oc_entities = [example_entity],
                          oc_callback = Some (Fn 0)\<rparr> example_store (None, Some example_commit_response)
                       = Inr (store', Fn 0, None, Some example_commit_response)
                     \<and> k_id (store' (e_key ([example_entity] ! 0))) = k_id (id ?kp))"
    by simp
  with alone have "\<exists>store'. onCommit id example_closure example_store (None, Some example_commit_response)
                   = Inr (store', Fn 0, None, Some example_commit_response)
                 \<and> k_id (store' 0) = Some 5669"
    by (simp add: example_closure_def example_entity_def)
  with incomplete generated example_forEach show ?thesis
    by blast
qed


section \<open>save: excludeFromIndexes in the property-list form\<close>






section \<open>runQuery\<close>

text \<open>
  C10.  Let a response report \<open>NOT_FINISHED\<close> while the query proto of the outstanding
  request carries a limit greater than \<open>-1\<close>.  When the batch has no
  \<open>entityResults\<close>, \<open>onResponse\<close> throws a TypeError: the callback is not
  called and no further request is sent.  When the batch has \<open>entityResults\<close> (and an
  end cursor), the request is issued again for the next query, whose limit is the outstanding
  limit less the length of \<open>entityResults\<close>.
\<close>

theorem not_finished_reads_entityResults_length:
  assumes "batch resp = Some b" and "moreResults b = ''NOT_FINISHED''"
    and "req_query reqOpts = Some qp" and "qp_limit qp = Some limit" and "limit > -1"
  shows "(entityResults b = None \<longrightarrow>
            onResponse queryToQueryProto formatArray query originalLimitVal callback this reqOpts
              entities ((None, Some resp) # replies) = (this, Thrown TypeError))
       \<and> (\<forall>ers cursor. entityResults b = Some ers \<and> endCursor b = Some cursor \<longrightarrow>
            onResponse queryToQueryProto formatArray query originalLimitVal callback this reqOpts
              entities ((None, Some resp) # replies)
            = onResponse queryToQueryProto formatArray query originalLimitVal callback
                (request_priv this \<lparr>po_service = ''Datastore'', po_method = ''runQuery''\<rparr>
                   (reqOpts\<lparr>req_query := Some (queryToQueryProto
                      (query\<lparr>startVal := Some (toString_base64 cursor),
                             offsetVal := (if offsetVal query = -1 then 0 else offsetVal query)
                                          - skippedResults b,
                             limitVal := limit - int (length ers)\<rparr>))\<rparr>))
                (reqOpts\<lparr>req_query := Some (queryToQueryProto
                      (query\<lparr>startVal := Some (toString_base64 cursor),
                             offsetVal := (if offsetVal query = -1 then 0 else offsetVal query)
                                          - skippedResults b,
                             limitVal := limit - int (length ers)\<rparr>))\<rparr>)
                (entities @ formatArray ers) replies)"
  using assms
  by (auto simp: build_nextQuery_def Query_start_def Query_offset_def Query_limit_def Let_def
           split: option.splits sum.splits)


theorem not_finished_reads_entityResults_length_witness:
  "onResponse example_queryToQueryProto id example_query 5 (Some (Fn 0)) example_datastore
     example_query_request []
     [(None, Some \<lparr>batch = Some (example_batch_not_finished\<lparr>entityResults := None\<rparr>)\<rparr>)]
     = (example_datastore, Thrown TypeError)
   \<and> onResponse example_queryToQueryProto id example_query 5 (Some (Fn 0)) example_datastore
       example_query_request [] [(None, Some \<lparr>batch = Some example_batch_not_finished\<rparr>)]
     = (example_datastore\<lparr>sent :=
          [(\<lparr>po_service = ''Datastore'', po_method = ''runQuery''\<rparr>,
            example_query_request
              \<lparr>req_query := Some \<lparr>qp_limit = Some 3, qp_rest = ()\<rparr>,
               req_projectId := Some ''project-id''\<rparr>)]\<rparr>,
        Awaiting)"
  using not_finished_reads_entityResults_length
          [where resp = "\<lparr>batch = Some (example_batch_not_finished\<lparr>entityResults := None\<rparr>)\<rparr>"
             and b = "example_batch_not_finished\<lparr>entityResults := None\<rparr>"
             and reqOpts = example_query_request
             and qp = "example_queryToQueryProto example_query" and limit = 5
             and queryToQueryProto = example_queryToQueryProto and formatArray = id
             and query = example_query and originalLimitVal = 5 and callback = "Some (Fn 0)"
             and this = example_datastore and entities = "[]" and replies = "[]"]
        not_finished_reads_entityResults_length
          [where resp = "\<lparr>batch = Some example_batch_not_finished\<rparr>"
             and b = example_batch_not_finished
             and reqOpts = example_query_request
             and qp = "example_queryToQueryProto example_query" and limit = 5
             and queryToQueryProto = example_queryToQueryProto and formatArray = id
             and query = example_query and originalLimitVal = 5 and callback = "Some (Fn 0)"
             and this = example_datastore and entities = "[]" and replies = "[]"]
  by (simp add: example_batch_not_finished_def example_query_request_def example_query_def
        example_queryToQueryProto_def example_datastore_def request_priv_def)


text \<open>
  C1, as stated, fails: nothing bounds the offset of the next query below.  For a query without
  offset and a batch that reports three skipped results, the callback receives a next query
  whose offset is \<open>-3\<close>.
\<close>

theorem nextQuery_offset_not_bounded:
  "snd (runQuery example_queryToQueryProto id example_datastore example_query (Some (Fn 0))
          [(None, Some \<lparr>batch = Some (example_batch_more_results\<lparr>skippedResults := 3\<rparr>)\<rparr>)])
     = Invoked (Fn 0)
         (None, Some [''c''],
          Some (example_query\<lparr>startVal := Some ''Y3Vyc29yMg=='', offsetVal := -3\<rparr>),
          Some \<lparr>batch = Some (example_batch_more_results\<lparr>skippedResults := 3\<rparr>)\<rparr>)
   \<and> offsetVal (example_query\<lparr>startVal := Some ''Y3Vyc29yMg=='', offsetVal := -3\<rparr>) < 0"
  by (simp add: runQuery_def example_batch_more_results_def example_query_def truthy_def
        build_nextQuery_def Query_start_def Query_offset_def Query_limit_def call_def Let_def)

text \<open>
  C1, amended.  For a response that reports \<open>NOT_FINISHED\<close> or
  \<open>MORE_RESULTS_AFTER_LIMIT\<close> and carries an end cursor, the next query constructed is
  the query with its start cursor set to the base64 text of the batch's end cursor and its
  offset set to the query's offset (0 when unset) minus the batch's \<open>skippedResults\<close>;
  when the response is the first one and reports \<open>MORE_RESULTS_AFTER_LIMIT\<close>, this is
  the next query the callback receives.  The offset is the plain difference: it is not negative
  exactly when \<open>skippedResults\<close> does not exceed the query's offset.
\<close>

theorem nextQuery_cursor_and_offset:
  assumes "batch resp = Some b"
    and "moreResults b = ''NOT_FINISHED'' \<or> moreResults b = ''MORE_RESULTS_AFTER_LIMIT''"
    and "endCursor b = Some cursor"
  shows "build_nextQuery query b
           = Inr (query\<lparr>startVal := Some (toString_base64 cursor),
                        offsetVal := (if offsetVal query = -1 then 0 else offsetVal query)
                                     - skippedResults b\<rparr>)
       \<and> (moreResults b = ''MORE_RESULTS_AFTER_LIMIT'' \<longrightarrow>
            snd (runQuery queryToQueryProto formatArray this query (Some f)
                   ((None, Some resp) # replies))
              = Invoked f
                  (None,
                   Some (case entityResults b of None \<Rightarrow> [] | Some ers \<Rightarrow> formatArray ers),
                   Some (query\<lparr>startVal := Some (toString_base64 cursor),
                               offsetVal := (if offsetVal query = -1 then 0 else offsetVal query)
                                            - skippedResults b\<rparr>),
                   Some resp))
       \<and> (0 \<le> (if offsetVal query = -1 then 0 else offsetVal query) - skippedResults b
            \<longleftrightarrow> skippedResults b \<le> (if offsetVal query = -1 then 0 else offsetVal query))"
  using assms
  by (auto simp: runQuery_def build_nextQuery_def Query_start_def Query_offset_def Query_limit_def
        call_def Let_def split: option.splits)


theorem nextQuery_cursor_and_offset_witness:
  "build_nextQuery (example_query\<lparr>offsetVal := 10\<rparr>) (example_batch_more_results\<lparr>skippedResults := 4\<rparr>)
     = Inr (example_query\<lparr>startVal := Some ''Y3Vyc29yMg=='', offsetVal := 6\<rparr>)
   \<and> snd (runQuery example_queryToQueryProto id example_datastore (example_query\<lparr>offsetVal := 10\<rparr>)
            (Some (Fn 0))
            [(None, Some \<lparr>batch = Some (example_batch_more_results\<lparr>skippedResults := 4\<rparr>)\<rparr>)])
     = Invoked (Fn 0)
         (None, Some [''c''],
          Some (example_query\<lparr>startVal := Some ''Y3Vyc29yMg=='', offsetVal := 6\<rparr>),
          Some \<lparr>batch = Some (example_batch_more_results\<lparr>skippedResults := 4\<rparr>)\<rparr>)"
  using nextQuery_cursor_and_offset
          [where resp = "\<lparr>batch = Some (example_batch_more_results\<lparr>skippedResults := 4\<rparr>)\<rparr>"
             and b = "example_batch_more_results\<lparr>skippedResults := 4\<rparr>"
             and cursor = "Buffer ''Y3Vyc29yMg==''" and query = "example_query\<lparr>offsetVal := 10\<rparr>"
             and queryToQueryProto = example_queryToQueryProto and formatArray = id
             and this = example_datastore and f = "Fn 0" and replies = "[]"]
  by (simp add: example_batch_more_results_def example_query_def)


text \<open>
  A run of \<open>NOT_FINISHED\<close> batches, each with an end cursor and
  \<open>entityResults\<close>: every one of them makes \<open>onResponse\<close> send one more
  request and go on with the decoded entities appended.
\<close>

lemma onResponse_not_finished_batches:
  assumes proto: "\<forall>q. qp_limit (queryToQueryProto q) \<noteq> None"
  shows "req_query reqOpts \<noteq> None \<Longrightarrow> qp_limit (the (req_query reqOpts)) \<noteq> None
   \<Longrightarrow> \<forall>b \<in> set bs. moreResults b = ''NOT_FINISHED'' \<and> endCursor b \<noteq> None \<and> entityResults b \<noteq> None
   \<Longrightarrow> \<exists>this' reqOpts'.
         onResponse queryToQueryProto formatArray query originalLimitVal callback this reqOpts
           entities (map (\<lambda>b. (None, Some \<lparr>batch = Some b\<rparr>)) bs @ replies)
         = onResponse queryToQueryProto formatArray query originalLimitVal callback this' reqOpts'
             (entities @ concat (map (\<lambda>b. formatArray (the (entityResults b))) bs)) replies
         \<and> length (sent this') = length (sent this) + length bs"
proof (induction bs arbitrary: this reqOpts entities)
  case Nil
  then show ?case by auto
next
  case (Cons b bs)
  from Cons.prems obtain qp limit cursor ers where b:
      "req_query reqOpts = Some qp" "qp_limit qp = Some limit"
      "moreResults b = ''NOT_FINISHED''" "endCursor b = Some cursor" "entityResults b = Some ers"
    by auto
  define nq where "nq = (let q = query\<lparr>startVal := Some (toString_base64 cursor),
                             offsetVal := (if offsetVal query = -1 then 0 else offsetVal query)
                                          - skippedResults b\<rparr>
                         in if limit > -1 then q\<lparr>limitVal := limit - int (length ers)\<rparr> else q)"
  define reqOpts1 where "reqOpts1 = reqOpts\<lparr>req_query := Some (queryToQueryProto nq)\<rparr>"
  define this1 where "this1 = request_priv this \<lparr>po_service = ''Datastore'', po_method = ''runQuery''\<rparr> reqOpts1"
  have step: "onResponse queryToQueryProto formatArray query originalLimitVal callback this reqOpts
                entities ((None, Some \<lparr>batch = Some b\<rparr>) # map (\<lambda>b. (None, Some \<lparr>batch = Some b\<rparr>)) bs @ replies)
              = onResponse queryToQueryProto formatArray query originalLimitVal callback this1 reqOpts1
                  (entities @ formatArray ers) (map (\<lambda>b. (None, Some \<lparr>batch = Some b\<rparr>)) bs @ replies)"
    using b
    by (simp add: build_nextQuery_def Query_start_def Query_offset_def Query_limit_def Let_def
          nq_def reqOpts1_def this1_def)
  have q1: "req_query reqOpts1 \<noteq> None" "qp_limit (the (req_query reqOpts1)) \<noteq> None"
    using proto by (simp_all add: reqOpts1_def)
  have rest: "\<forall>b \<in> set bs. moreResults b = ''NOT_FINISHED'' \<and> endCursor b \<noteq> None \<and> entityResults b \<noteq> None"
    using Cons.prems(3) by simp
  from Cons.IH [OF q1 rest, of this1 "entities @ formatArray ers"]
  obtain this' reqOpts' where ih:
      "onResponse queryToQueryProto formatArray query originalLimitVal callback this1 reqOpts1
         (entities @ formatArray ers) (map (\<lambda>b. (None, Some \<lparr>batch = Some b\<rparr>)) bs @ replies)
       = onResponse queryToQueryProto formatArray query originalLimitVal callback this' reqOpts'
           ((entities @ formatArray ers) @ concat (map (\<lambda>b. formatArray (the (entityResults b))) bs))
           replies"
      "length (sent this') = length (sent this1) + length bs"
    by blast
  have len: "length (sent this1) = Suc (length (sent this))"
    by (simp add: this1_def request_priv_def Let_def)
  show ?case
    using step ih len b(5) by (intro exI [of _ this'] exI [of _ reqOpts']) simp
qed


text \<open>
  With an encoder that puts a limit wrapper into every query proto, the whole run succeeds:
  after any number of \<open>NOT_FINISHED\<close> batches (each with an end cursor and
  \<open>entityResults\<close>) and a \<open>MORE_RESULTS_AFTER_LIMIT\<close> batch the callback is
  called once, with no error, the concatenation of the decoded entities of all the batches, and
  a next query whose limit is the limit of the caller's query; one request was sent for the
  call and one more per \<open>NOT_FINISHED\<close> batch.
\<close>

lemma runQuery_accumulates_with_limit_wrapper:
  assumes proto: "\<forall>q. qp_limit (queryToQueryProto q) \<noteq> None"
    and not_finished: "\<forall>b \<in> set bs. moreResults b = ''NOT_FINISHED'' \<and> endCursor b \<noteq> None
                         \<and> entityResults b \<noteq> None"
    and terminal: "moreResults t = ''MORE_RESULTS_AFTER_LIMIT''" "endCursor t = Some cursor"
  shows "snd (runQuery queryToQueryProto formatArray
                (this :: ('kp, 'pl, 'qp, 'v) datastore_request) query (Some f)
                (map (\<lambda>b. (None, Some \<lparr>batch = Some b\<rparr>)) (bs @ [t]) @ later))
           = Invoked f
               (None,
                Some (concat (map (\<lambda>b. case entityResults b of None \<Rightarrow> [] | Some ers \<Rightarrow> formatArray ers)
                                (bs @ [t]))),
                Some (query\<lparr>startVal := Some (toString_base64 cursor),
                            offsetVal := (if offsetVal query = -1 then 0 else offsetVal query)
                                         - skippedResults t\<rparr>),
                Some \<lparr>batch = Some t\<rparr>)
       \<and> limitVal (query\<lparr>startVal := Some (toString_base64 cursor),
                          offsetVal := (if offsetVal query = -1 then 0 else offsetVal query)
                                       - skippedResults t\<rparr>) = limitVal query
       \<and> length (sent (fst (runQuery queryToQueryProto formatArray this query (Some f)
                (map (\<lambda>b. (None, Some \<lparr>batch = Some b\<rparr>)) (bs @ [t]) @ later))))
           = length (sent this) + 1 + length bs"
proof -
  let ?mk = "\<lambda>b. (None :: js_error option, Some \<lparr>batch = Some b\<rparr>)"
  let ?po = "\<lparr>po_service = ''Datastore'', po_method = ''runQuery''\<rparr>"
  define reqOpts0 :: "('kp, 'pl, 'qp) req_opts" where
    "reqOpts0 = (let r = empty_req\<lparr>req_readOptions := Some \<lparr>ro_transaction = None\<rparr>,
                                   req_query := Some (queryToQueryProto query)\<rparr>
                 in if truthy (q_namespace query) then r\<lparr>req_partitionId := q_namespace query\<rparr> else r)"
  define this0 where "this0 = request_priv this ?po reqOpts0"
  have run: "runQuery queryToQueryProto formatArray this query (Some f) replies
             = onResponse queryToQueryProto formatArray query (limitVal query) (Some f) this0 reqOpts0
                 [] replies" for replies
    by (simp add: runQuery_def reqOpts0_def this0_def Let_def)
  have q0: "req_query reqOpts0 \<noteq> None" "qp_limit (the (req_query reqOpts0)) \<noteq> None"
    using proto by (simp_all add: reqOpts0_def Let_def)
  from onResponse_not_finished_batches [OF proto q0 not_finished,
         of formatArray query "limitVal query" "Some f" this0 "[]" "?mk t # later"]
  obtain this' reqOpts' where loop:
      "onResponse queryToQueryProto formatArray query (limitVal query) (Some f) this0 reqOpts0 []
         (map ?mk bs @ ?mk t # later)
       = onResponse queryToQueryProto formatArray query (limitVal query) (Some f) this' reqOpts'
           ([] @ concat (map (\<lambda>b. formatArray (the (entityResults b))) bs)) (?mk t # later)"
      "length (sent this') = length (sent this0) + length bs"
    by blast
  have decoded: "concat (map (\<lambda>b. formatArray (the (entityResults b))) bs)
                 = concat (map (\<lambda>b. case entityResults b of None \<Rightarrow> [] | Some ers \<Rightarrow> formatArray ers) bs)"
    using not_finished by (intro arg_cong [where f = concat] map_cong) auto
  have last: "onResponse queryToQueryProto formatArray query (limitVal query) (Some f) this' reqOpts'
                entities (?mk t # later)
              = (this', Invoked f
                   (None,
                    Some (entities @ (case entityResults t of None \<Rightarrow> [] | Some ers \<Rightarrow> formatArray ers)),
                    Some (query\<lparr>startVal := Some (toString_base64 cursor),
                                offsetVal := (if offsetVal query = -1 then 0 else offsetVal query)
                                             - skippedResults t\<rparr>),
                    Some \<lparr>batch = Some t\<rparr>))" for entities
    using terminal
    by (simp add: build_nextQuery_def Query_start_def Query_offset_def Query_limit_def call_def
          Let_def split: option.splits)
  have len0: "length (sent this0) = Suc (length (sent this))"
    by (simp add: this0_def request_priv_def Let_def)
  show ?thesis
    unfolding run using loop last len0 by (simp add: decoded)
qed

lemma runQuery_accumulates_with_limit_wrapper_example:
  "(\<forall>q. qp_limit (example_queryToQueryProto q) \<noteq> None)
   \<and> snd (runQuery example_queryToQueryProto id example_datastore example_query (Some (Fn 0))
            example_replies)
       = Invoked (Fn 0)
           (None, Some [''a'', ''b'', ''x'', ''c''],
            Some (example_query\<lparr>startVal := Some ''Y3Vyc29yMg=='', offsetVal := 0\<rparr>),
            Some \<lparr>batch = Some example_batch_more_results\<rparr>)
   \<and> limitVal (example_query\<lparr>startVal := Some ''Y3Vyc29yMg=='', offsetVal := 0\<rparr>) = 5
   \<and> length (sent (fst (runQuery example_queryToQueryProto id example_datastore example_query
                          (Some (Fn 0)) example_replies))) = 3"
proof -
  have proto: "\<forall>q. qp_limit (example_queryToQueryProto q) \<noteq> None"
    by (simp add: example_queryToQueryProto_def)
  have not_finished:
    "\<forall>b \<in> set [example_batch_not_finished, example_batch_not_finished\<lparr>entityResults := Some [''x'']\<rparr>].
       moreResults b = ''NOT_FINISHED'' \<and> endCursor b \<noteq> None \<and> entityResults b \<noteq> None"
    by (simp add: example_batch_not_finished_def)
  have terminal: "moreResults example_batch_more_results = ''MORE_RESULTS_AFTER_LIMIT''"
      "endCursor example_batch_more_results = Some (Buffer ''Y3Vyc29yMg=='')"
    by (simp_all add: example_batch_more_results_def)
  from runQuery_accumulates_with_limit_wrapper
         [OF proto not_finished terminal, of id example_datastore example_query "Fn 0" "[]"]
  show ?thesis
    using proto
    by (simp add: example_replies_def example_batch_not_finished_def example_batch_more_results_def
          example_query_def example_datastore_def)
qed

text \<open>
  Line 474 reads \<open>reqOpts.query.limit.value\<close> before the test \<open>limit > -1\<close>:
  when the query proto of the outstanding request has no limit wrapper, a
  \<open>NOT_FINISHED\<close> reply makes \<open>onResponse\<close> throw, whatever else the batch
  holds.
\<close>

lemma onResponse_not_finished_without_limit_wrapper:
  assumes "batch resp = Some b" and "moreResults b = ''NOT_FINISHED''"
    and "req_query reqOpts = Some qp" and "qp_limit qp = None"
  shows "onResponse queryToQueryProto formatArray query originalLimitVal callback this reqOpts
           entities ((None, Some resp) # replies) = (this, Thrown TypeError)"
  using assms
  by (auto simp: build_nextQuery_def Let_def split: option.splits sum.splits)

lemma runQuery_not_finished_without_limit_wrapper:
  assumes "batch resp = Some b" and "moreResults b = ''NOT_FINISHED''"
    and "qp_limit (queryToQueryProto query) = None"
  shows "snd (runQuery queryToQueryProto formatArray this query callback ((None, Some resp) # replies))
           = Thrown TypeError"
  using assms
  by (auto simp: runQuery_def build_nextQuery_def Let_def split: option.splits sum.splits)

text \<open>
  C2.  The run the claim describes does not reach the callback for a query without limit, nor
  for a query whose limit the first batch uses up: with the encoder that omits the wrapper of
  a limit that is not positive, and the server answering \<open>NOT_FINISHED\<close> twice and
  then \<open>MORE_RESULTS_AFTER_LIMIT\<close>, \<open>runQuery\<close> throws a TypeError.  For the
  query without limit this happens on the first reply, after the one request of the call; for
  the query with limit 2 on the second reply, the first batch having held two entities.
\<close>

theorem runQuery_not_finished_throws_without_limit:
  "runQuery example_queryToQueryProto_positive id example_datastore
     (example_query\<lparr>limitVal := -1\<rparr>) (Some (Fn 0)) example_replies
     = (example_datastore\<lparr>sent :=
          [(\<lparr>po_service = ''Datastore'', po_method = ''runQuery''\<rparr>,
            empty_req\<lparr>req_readOptions := Some \<lparr>ro_transaction = None\<rparr>,
                      req_query := Some \<lparr>qp_limit = None, qp_rest = ()\<rparr>,
                      req_projectId := Some ''project-id''\<rparr>)]\<rparr>,
        Thrown TypeError)
   \<and> snd (runQuery example_queryToQueryProto_positive id example_datastore
            (example_query\<lparr>limitVal := 2\<rparr>) (Some (Fn 0)) example_replies)
       = Thrown TypeError"
  by (simp add: runQuery_def example_replies_def example_batch_not_finished_def
        example_batch_more_results_def example_query_def example_datastore_def truthy_def
        example_queryToQueryProto_positive_def build_nextQuery_def Query_start_def
        Query_offset_def Query_limit_def request_priv_def call_def Let_def)

end
